theory Spec2Isabelle
  imports Main "HOL-Library.AList" "HOL-Library.Sublist"
begin

section \<open>cruddy: a CRUD wrapper around one DynamoDB table\<close>

text \<open>
  A shallow embedding of \<^verbatim>\<open>src/cruddy/__init__.py\<close> (Python 2). The classes
  \<^verbatim>\<open>CRUDResponse\<close>, \<^verbatim>\<open>Tokens\<close> and \<^verbatim>\<open>CRUD\<close> are translated method by
  method. Everything the module calls but does not define (the DynamoDB table, the KMS client,
  \<^verbatim>\<open>uuid.uuid4\<close>, \<^verbatim>\<open>time.time\<close>, \<^verbatim>\<open>base64\<close>) is an explicit
  environment; an exception that leaves a method is a value \<open>Inl e\<close>.
\<close>

subsection \<open>Python values\<close>

text \<open>
  A finite \<^verbatim>\<open>decimal.Decimal\<close> is a signed coefficient and an exponent: \<open>Dec c e\<close>
  stands for \<open>c * 10 ^ e\<close>. The table never holds NaN or an infinity.
\<close>

datatype decimal = Dec int int

text \<open>
  The values an item can hold. \<open>PFloat d\<close> stands for \<^verbatim>\<open>float(d)\<close>, the double nearest to
  the decimal \<open>d\<close>; the rounding itself is not modelled. \<open>PSet\<close> is a Python \<^verbatim>\<open>set\<close>
  (what the table returns for its set types), \<open>PBinary\<close> a boto3 \<^verbatim>\<open>Binary\<close>. A
  \<^verbatim>\<open>dict\<close> with string keys is an association list.
\<close>

datatype pyval =
    PNone
  | PBool bool
  | PInt int
  | PFloat decimal
  | PStr string
  | PDecimal decimal
  | PBinary string
  | PSet "pyval list"
  | PList "pyval list"
  | PDict "(string \<times> pyval) list"

type_synonym item = "(string \<times> pyval) list"

text \<open>Exceptions that can leave a method of the module.\<close>

datatype pyexn =
    ClientError "string option" "string option" "string option"
      \<comment> \<open>botocore's ClientError: Message, Code and Type of \<^verbatim>\<open>e.response['Error']\<close>\<close>
  | OtherException string string
      \<comment> \<open>any other exception of an external call: class name and \<^verbatim>\<open>str(e)\<close>\<close>
  | ValueError
  | KeyError string
  | TypeError
  | AttributeError
  | InvalidOperation
  | CruddyKeySchemaException
  | CruddyKeyNameException

subsection \<open>Decimal arithmetic used by \<^verbatim>\<open>_replace_decimals\<close>\<close>

text \<open>
  \<^verbatim>\<open>obj % 1\<close> is computed in the thread's decimal context, whose precision is 28 digits
  unless the application changes it. The remainder exists only when the integer quotient
  \<^verbatim>\<open>obj // 1\<close> has at most that many digits; otherwise the operation signals
  DivisionImpossible, which the default context raises as \<^verbatim>\<open>decimal.InvalidOperation\<close>.
\<close>

definition context_prec :: nat where
  "context_prec = 28"

fun int_of_decimal :: "decimal \<Rightarrow> int" where
  "int_of_decimal (Dec c e) =
     (if 0 \<le> e then c * 10 ^ nat e else sgn c * (\<bar>c\<bar> div 10 ^ nat (- e)))"

fun is_whole :: "decimal \<Rightarrow> bool" where
  "is_whole (Dec c e) = (if 0 \<le> e then True else \<bar>c\<bar> mod 10 ^ nat (- e) = 0)"

definition quotient_too_large :: "decimal \<Rightarrow> bool" where
  "quotient_too_large d = (10 ^ context_prec \<le> \<bar>int_of_decimal d\<bar>)"

text \<open>\<^verbatim>\<open>obj % 1 == 0\<close>: raises, or tells whether the decimal is a whole number.\<close>

definition mod1_is_zero :: "decimal \<Rightarrow> pyexn + bool" where
  "mod1_is_zero d = (if quotient_too_large d then Inl InvalidOperation else Inr (is_whole d))"

text \<open>
  \<^verbatim>\<open>CRUD._replace_decimals\<close>. The source overwrites the list or dict in place, element by
  element; the values it is applied to are freshly deserialised trees, so the result is the
  rebuilt value. An exception in an element leaves the whole call.
\<close>

fun replace_decimals :: "pyval \<Rightarrow> pyexn + pyval"
  and replace_decimals_list :: "pyval list \<Rightarrow> pyexn + pyval list"
  and replace_decimals_dict :: "(string \<times> pyval) list \<Rightarrow> pyexn + (string \<times> pyval) list"
where
  "replace_decimals (PList xs) =
     (case replace_decimals_list xs of Inl e \<Rightarrow> Inl e | Inr ys \<Rightarrow> Inr (PList ys))"
| "replace_decimals (PDict kvs) =
     (case replace_decimals_dict kvs of Inl e \<Rightarrow> Inl e | Inr kvs' \<Rightarrow> Inr (PDict kvs'))"
| "replace_decimals (PDecimal d) =
     (case mod1_is_zero d of
        Inl e \<Rightarrow> Inl e
      | Inr True \<Rightarrow> Inr (PInt (int_of_decimal d))
      | Inr False \<Rightarrow> Inr (PFloat d))"
| "replace_decimals PNone = Inr PNone"
| "replace_decimals (PBool b) = Inr (PBool b)"
| "replace_decimals (PInt i) = Inr (PInt i)"
| "replace_decimals (PFloat f) = Inr (PFloat f)"
| "replace_decimals (PStr s) = Inr (PStr s)"
| "replace_decimals (PBinary s) = Inr (PBinary s)"
| "replace_decimals (PSet xs) = Inr (PSet xs)"
| "replace_decimals_list [] = Inr []"
| "replace_decimals_list (x # xs) =
     (case replace_decimals x of
        Inl e \<Rightarrow> Inl e
      | Inr y \<Rightarrow> (case replace_decimals_list xs of Inl e \<Rightarrow> Inl e | Inr ys \<Rightarrow> Inr (y # ys)))"
| "replace_decimals_dict [] = Inr []"
| "replace_decimals_dict ((k, v) # kvs) =
     (case replace_decimals v of
        Inl e \<Rightarrow> Inl e
      | Inr v' \<Rightarrow>
          (case replace_decimals_dict kvs of Inl e \<Rightarrow> Inl e | Inr kvs' \<Rightarrow> Inr ((k, v') # kvs')))"

subsection \<open>The environment\<close>

text \<open>
  A request to the table is a method of the boto3 table object with its arguments:
  \<^verbatim>\<open>get_item(Key={'id': id}, ConsistentRead=c)\<close>, \<^verbatim>\<open>put_item(Item=item)\<close>,
  \<^verbatim>\<open>delete_item(Key={'id': id})\<close>, \<^verbatim>\<open>scan()\<close> and
  \<^verbatim>\<open>query(KeyConditionExpression=Key(key).eq(value), IndexName=index)\<close>.
\<close>

datatype ddb_call =
    Get_item pyval bool
  | Put_item item
  | Delete_item pyval
  | Scan
  | Query string string string  \<comment> \<open>key, value, index name\<close>

text \<open>
  Every call that leaves the module is recorded; the history holds the most recent call
  first. An external component answers a call as a function of the calls made before it,
  which covers any deterministic table, key service, generator and clock; the theorems
  hold for all of them.
\<close>

datatype event =
    Store ddb_call
  | Kms_encrypt string pyval  \<comment> \<open>KeyId, Plaintext\<close>
  | Kms_decrypt string        \<comment> \<open>CiphertextBlob\<close>
  | Uuid4
  | Time

type_synonym history = "event list"

text \<open>
  What the table answers. boto3 always returns \<^verbatim>\<open>ResponseMetadata\<close>; \<^verbatim>\<open>Item\<close> is
  present when a point read finds the item, \<^verbatim>\<open>Items\<close> in the answer to a scan or query.
\<close>

record raw_response =
  Item :: "item option"
  Items :: "item list option"
  ResponseMetadata :: pyval

datatype 'a outcome =
    Returns 'a
  | Raises_ClientError "string option" "string option" "string option"
      \<comment> \<open>Message, Code, Type\<close>
  | Raises_Exception string string
      \<comment> \<open>class name, \<^verbatim>\<open>str(e)\<close>\<close>

text \<open>
  \<open>time_ms\<close> is \<^verbatim>\<open>int(time.time() * 1000)\<close>; \<open>uuid4\<close> is \<^verbatim>\<open>str(uuid.uuid4())\<close>;
  \<open>b64decode\<close> is \<open>None\<close> where \<^verbatim>\<open>base64.b64decode\<close> raises TypeError;
  \<open>str_of\<close> is what \<^verbatim>\<open>'{}'.format\<close> prints for a value.
\<close>

record env =
  ddb :: "history \<Rightarrow> ddb_call \<Rightarrow> raw_response outcome"
  kms_encrypt :: "history \<Rightarrow> string \<Rightarrow> pyval \<Rightarrow> string outcome"
  kms_decrypt :: "history \<Rightarrow> string \<Rightarrow> string outcome"
  uuid4 :: "history \<Rightarrow> string"
  time_ms :: "history \<Rightarrow> int"
  b64encode :: "string \<Rightarrow> string"
  b64decode :: "string \<Rightarrow> string option"
  str_of :: "pyval \<Rightarrow> string"

subsection \<open>\<^verbatim>\<open>CRUDResponse\<close>\<close>

record response =
  rdebug :: bool  \<comment> \<open>\<^verbatim>\<open>_debug\<close>\<close>
  status :: string
  data :: pyval
  error_type :: "string option"
  error_code :: "string option"
  error_message :: "string option"
  raw_response :: "raw_response option"
  metadata :: "pyval option"

definition CRUDResponse :: "bool \<Rightarrow> response" where
  "CRUDResponse dbg =
     \<lparr>rdebug = dbg, status = ''success'', data = PNone, error_type = None,
      error_code = None, error_message = None, raw_response = None, metadata = None\<rparr>"

definition is_successful :: "response \<Rightarrow> bool" where
  "is_successful r = (status r = ''success'')"

definition prepare :: "response \<Rightarrow> response" where
  "prepare r =
     (if status r = ''success'' then
        (case raw_response r of
           None \<Rightarrow> r
         | Some raw \<Rightarrow>
             if \<not> rdebug r then r\<lparr>metadata := Some (ResponseMetadata raw), raw_response := None\<rparr>
             else r)
      else r)"

subsection \<open>\<^verbatim>\<open>Tokens\<close>\<close>

text \<open>Python's \<^verbatim>\<open>\s\<close> on a byte string: space, tab, newline, return, form feed, vertical tab.\<close>

definition is_space :: "char \<Rightarrow> bool" where
  "is_space c = ((of_char c :: nat) \<in> {9, 10, 11, 12, 13, 32})"

text \<open>
  \<^verbatim>\<open>token_re.match(token)\<close>: the pattern is an escaped \<^verbatim>\<open><\<close>, the group
  \<^verbatim>\<open>(?P<token>[^\s]+)\<close> and an escaped \<^verbatim>\<open>>\<close>; in Python's \<^verbatim>\<open>re\<close> the two escapes
  are the plain characters. The match starts at the first character; the group is greedy, so
  it ends before the last \<^verbatim>\<open>>\<close> of the first whitespace-free run, and it is not empty.
  The result is the group.
\<close>

definition token_match :: "string \<Rightarrow> string option" where
  "token_match t =
     (case t of
        [] \<Rightarrow> None
      | c # s \<Rightarrow>
          if c \<noteq> CHR ''<'' then None
          else
            let p = takeWhile (\<lambda>c. \<not> is_space c) s;
                q = rev (dropWhile (\<lambda>c. c \<noteq> CHR ''>'') (rev p))
            in if length q < 2 then None else Some (butlast q))"

text \<open>
  \<^verbatim>\<open>Tokens.check\<close>: the only attributes of \<^verbatim>\<open>Tokens\<close> named \<^verbatim>\<open>_get_...\<close> are
  \<^verbatim>\<open>_get_uuid\<close> and \<^verbatim>\<open>_get_timestamp\<close>. Matching anything but a string raises TypeError.
\<close>

fun check :: "env \<Rightarrow> pyval \<Rightarrow> history \<Rightarrow> (pyexn + pyval) \<times> history" where
  "check E (PStr token) h =
     (case token_match token of
        None \<Rightarrow> (Inr (PStr token), h)
      | Some name \<Rightarrow>
          if name = ''uuid'' then (Inr (PStr (uuid4 E h)), Uuid4 # h)
          else if name = ''timestamp'' then (Inr (PInt (time_ms E h)), Time # h)
          else (Inr (PStr token), h))"
| "check E v h = (Inl TypeError, h)"

subsection \<open>\<^verbatim>\<open>CRUD\<close>: construction\<close>

record crud =
  defaults :: item
  supported_ops :: "string list"
  encrypted_attributes :: "(string \<times> string) list"
  indexes :: "(string \<times> string) list"  \<comment> \<open>\<^verbatim>\<open>_indexes\<close>\<close>
  debug :: bool  \<comment> \<open>\<^verbatim>\<open>_debug\<close>\<close>

definition SupportedOps :: "string list" where
  "SupportedOps = [''create'', ''update'', ''get'', ''delete'', ''list'', ''query'']"

text \<open>
  The keyword arguments the constructor reads (an absent one is \<open>None\<close>), and what it reads
  of the table: the attribute names of the key schema, and for every global secondary index
  the attribute names of its key schema and its name.
\<close>

record kwargs =
  kw_defaults :: "item option"
  kw_supported_ops :: "string list option"
  kw_encrypted_attributes :: "(string \<times> string) list option"
  kw_debug :: "bool option"

record table =
  key_schema :: "string list"
  global_secondary_indexes :: "(string list \<times> string) list option"

fun analyze_gsis :: "(string list \<times> string) list \<Rightarrow> (string \<times> string) list \<Rightarrow> (string \<times> string) list" where
  "analyze_gsis [] idx = idx"
| "analyze_gsis ((ks, index_name) # gsis) idx =
     (case ks of
        [gsi_hash] \<Rightarrow> analyze_gsis gsis (AList.update gsi_hash index_name idx)
      | _ \<Rightarrow> analyze_gsis gsis idx)"

definition analyze_table :: "table \<Rightarrow> pyexn + (string \<times> string) list" where
  "analyze_table t =
     (case key_schema t of
        [k] \<Rightarrow>
          if k \<noteq> ''id'' then Inl CruddyKeyNameException
          else
            (case global_secondary_indexes t of
               None \<Rightarrow> Inr []
             | Some gsis \<Rightarrow> Inr (analyze_gsis gsis []))
      | _ \<Rightarrow> Inl CruddyKeySchemaException)"

definition CRUD_init :: "kwargs \<Rightarrow> table \<Rightarrow> pyexn + crud" where
  "CRUD_init kw t =
     (let d0 = (case kw_defaults kw of None \<Rightarrow> [] | Some d \<Rightarrow> d);
          d1 = AList.update ''id'' (PStr ''<uuid>'') d0;
          d2 = AList.update ''created_at'' (PStr ''<timestamp>'') d1
      in case analyze_table t of
           Inl e \<Rightarrow> Inl e
         | Inr idx \<Rightarrow>
             Inr \<lparr>defaults = d2,
                  supported_ops = (case kw_supported_ops kw of None \<Rightarrow> SupportedOps | Some ops \<Rightarrow> ops),
                  encrypted_attributes =
                    (case kw_encrypted_attributes kw of None \<Rightarrow> [] | Some ea \<Rightarrow> ea),
                  indexes = idx,
                  debug = (case kw_debug kw of None \<Rightarrow> False | Some b \<Rightarrow> b)\<rparr>)"

subsection \<open>\<^verbatim>\<open>CRUD\<close>: helpers\<close>

text \<open>
  \<^verbatim>\<open>_encrypt\<close> and \<^verbatim>\<open>_decrypt\<close> loop over the configured pairs. A failing KMS call or
  \<^verbatim>\<open>b64decode\<close> is not caught in the source, so it ends the loop with \<open>Inl\<close>.
\<close>

fun encrypt :: "env \<Rightarrow> (string \<times> string) list \<Rightarrow> item \<Rightarrow> history \<Rightarrow> (pyexn + item) \<times> history" where
  "encrypt E [] item h = (Inr item, h)"
| "encrypt E ((encrypted_attr, master_key_id) # rest) item h =
     (case map_of item encrypted_attr of
        None \<Rightarrow> encrypt E rest item h
      | Some plaintext \<Rightarrow>
          (case kms_encrypt E h master_key_id plaintext of
             Returns blob \<Rightarrow>
               encrypt E rest (AList.update encrypted_attr (PStr (b64encode E blob)) item)
                 (Kms_encrypt master_key_id plaintext # h)
           | Raises_ClientError m c t \<Rightarrow>
               (Inl (ClientError m c t), Kms_encrypt master_key_id plaintext # h)
           | Raises_Exception cls msg \<Rightarrow>
               (Inl (OtherException cls msg), Kms_encrypt master_key_id plaintext # h)))"

fun decrypt :: "env \<Rightarrow> (string \<times> string) list \<Rightarrow> item \<Rightarrow> history \<Rightarrow> (pyexn + item) \<times> history" where
  "decrypt E [] item h = (Inr item, h)"
| "decrypt E ((encrypted_attr, master_key_id) # rest) item h =
     (case map_of item encrypted_attr of
        None \<Rightarrow> decrypt E rest item h
      | Some (PStr s) \<Rightarrow>
          (case b64decode E s of
             None \<Rightarrow> (Inl TypeError, h)
           | Some blob \<Rightarrow>
               (case kms_decrypt E h blob of
                  Returns plaintext \<Rightarrow>
                    decrypt E rest (AList.update encrypted_attr (PStr plaintext) item)
                      (Kms_decrypt blob # h)
                | Raises_ClientError m c t \<Rightarrow> (Inl (ClientError m c t), Kms_decrypt blob # h)
                | Raises_Exception cls msg \<Rightarrow>
                    (Inl (OtherException cls msg), Kms_decrypt blob # h)))
      | Some _ \<Rightarrow> (Inl TypeError, h))"

text \<open>
  \<^verbatim>\<open>_handle_defaults\<close>: the keys of \<open>defaults\<close> that the item lacks are filled, in the
  order of the defaults (Python iterates a set, in an order of its own).
\<close>

fun fill_missing :: "env \<Rightarrow> item \<Rightarrow> string list \<Rightarrow> item \<Rightarrow> history \<Rightarrow> (pyexn + item) \<times> history" where
  "fill_missing E dflt [] item h = (Inr item, h)"
| "fill_missing E dflt (key # keys) item h =
     (case map_of dflt key of
        None \<Rightarrow> (Inl (KeyError key), h)
      | Some tok \<Rightarrow>
          (case check E tok h of
             (Inl e, h') \<Rightarrow> (Inl e, h')
           | (Inr v, h') \<Rightarrow> fill_missing E dflt keys (AList.update key v item) h'))"

definition handle_defaults :: "env \<Rightarrow> crud \<Rightarrow> item \<Rightarrow> history \<Rightarrow> (pyexn + item) \<times> history" where
  "handle_defaults E self item h =
     (let missing = filter (\<lambda>k. k \<notin> fst ` set item) (map fst (defaults self))
      in fill_missing E (defaults self) missing item h)"

definition check_supported_op :: "crud \<Rightarrow> string \<Rightarrow> response \<Rightarrow> bool \<times> response" where
  "check_supported_op self op_name r =
     (if op_name \<notin> set (supported_ops self) then
        (False, r\<lparr>status := ''error'',
                  error_type := Some ''UnsupportedOperation'',
                  error_message := Some (''Unsupported operation: '' @ op_name)\<rparr>)
      else (True, r))"

text \<open>
  \<^verbatim>\<open>_call_ddb_method\<close>: the one place where exceptions are caught. The request is recorded
  whatever its outcome.
\<close>

definition call_ddb_method :: "env \<Rightarrow> ddb_call \<Rightarrow> response \<Rightarrow> history \<Rightarrow> response \<times> history" where
  "call_ddb_method E c r h =
     (case ddb E h c of
        Returns raw \<Rightarrow> (r\<lparr>raw_response := Some raw\<rparr>, Store c # h)
      | Raises_ClientError m code t \<Rightarrow>
          (r\<lparr>status := ''error'', error_message := m, error_code := code, error_type := t\<rparr>,
           Store c # h)
      | Raises_Exception cls msg \<Rightarrow>
          (r\<lparr>status := ''error'', error_type := Some cls, error_code := None,
             error_message := Some msg\<rparr>,
           Store c # h))"

definition new_response :: "crud \<Rightarrow> response" where
  "new_response self = CRUDResponse (debug self)"

subsection \<open>\<^verbatim>\<open>CRUD\<close>: the operations\<close>

text \<open>
  Every operation takes the handler, its arguments and the history, and returns the envelope
  (or the exception that left it) and the extended history. Arguments are Python values, as
  the dispatcher passes its payload on unchecked. The method \<^verbatim>\<open>list\<close> is \<open>list_items\<close>
  here.
\<close>

type_synonym result = "(pyexn + response) \<times> history"

text \<open>\<^verbatim>\<open>'=' in query_string\<close> and \<^verbatim>\<open>query_string.split('=')\<close>.\<close>

fun contains_eq :: "pyval \<Rightarrow> pyexn + bool" where
  "contains_eq (PStr s) = Inr (CHR ''='' \<in> set s)"
| "contains_eq (PDict kvs) = Inr (''='' \<in> fst ` set kvs)"
| "contains_eq (PList xs) = Inr (PStr ''='' \<in> set xs)"
| "contains_eq (PSet xs) = Inr (PStr ''='' \<in> set xs)"
| "contains_eq _ = Inl TypeError"

fun split :: "char \<Rightarrow> string \<Rightarrow> string list" where
  "split sep [] = [[]]"
| "split sep (c # cs) =
     (if c = sep then [] # split sep cs
      else (case split sep cs of [] \<Rightarrow> [[c]] | w # ws \<Rightarrow> (c # w) # ws))"

fun split_eq :: "pyval \<Rightarrow> pyexn + string list" where
  "split_eq (PStr s) = Inr (split (CHR ''='') s)"
| "split_eq _ = Inl AttributeError"

definition query :: "env \<Rightarrow> crud \<Rightarrow> pyval \<Rightarrow> history \<Rightarrow> result" where
  "query E self query_string h =
     (let response = new_response self in
      case check_supported_op self ''query'' response of
        (False, response) \<Rightarrow> (Inr (prepare response), h)
      | (True, response) \<Rightarrow>
          (case contains_eq query_string of
             Inl e \<Rightarrow> (Inl e, h)
           | Inr False \<Rightarrow>
               (Inr (prepare (response\<lparr>status := ''error'',
                                       error_type := Some ''InvalidQuery'',
                                       error_message := Some ''Only the = operation is supported''\<rparr>)),
                h)
           | Inr True \<Rightarrow>
               (case split_eq query_string of
                  Inl e \<Rightarrow> (Inl e, h)
                | Inr [key, val] \<Rightarrow>
                    (case map_of (indexes self) key of
                       None \<Rightarrow>
                         (Inr (prepare (response\<lparr>status := ''error'',
                                                 error_type := Some ''InvalidQuery'',
                                                 error_message :=
                                                   Some (''Attribute '' @ key @ '' is not indexed'')\<rparr>)),
                          h)
                     | Some index_name \<Rightarrow>
                         (case call_ddb_method E (Query key val index_name) response h of
                            (response, h1) \<Rightarrow>
                              if status response = ''success'' then
                                (case raw_response response of
                                   None \<Rightarrow> (Inl TypeError, h1)
                                 | Some raw \<Rightarrow>
                                     (case Items raw of
                                        None \<Rightarrow> (Inl (KeyError ''Items''), h1)
                                      | Some items \<Rightarrow>
                                          (case replace_decimals (PList (map PDict items)) of
                                             Inl e \<Rightarrow> (Inl e, h1)
                                           | Inr d \<Rightarrow> (Inr (prepare (response\<lparr>data := d\<rparr>)), h1))))
                              else (Inr (prepare response), h1)))
                | Inr _ \<Rightarrow> (Inl ValueError, h))))"

definition list_items :: "env \<Rightarrow> crud \<Rightarrow> history \<Rightarrow> result" where
  "list_items E self h =
     (let response = new_response self in
      case check_supported_op self ''list'' response of
        (False, response) \<Rightarrow> (Inr (prepare response), h)
      | (True, response) \<Rightarrow>
          (case call_ddb_method E Scan response h of
             (response, h1) \<Rightarrow>
               if status response = ''success'' then
                 (case raw_response response of
                    None \<Rightarrow> (Inl TypeError, h1)
                  | Some raw \<Rightarrow>
                      (case Items raw of
                         None \<Rightarrow> (Inl (KeyError ''Items''), h1)
                       | Some items \<Rightarrow>
                           (case replace_decimals (PList (map PDict items)) of
                              Inl e \<Rightarrow> (Inl e, h1)
                            | Inr d \<Rightarrow> (Inr (prepare (response\<lparr>data := d\<rparr>)), h1))))
               else (Inr (prepare response), h1)))"

definition get :: "env \<Rightarrow> crud \<Rightarrow> pyval \<Rightarrow> bool \<Rightarrow> history \<Rightarrow> result" where
  "get E self ident dec h =
     (let response = new_response self in
      case check_supported_op self ''get'' response of
        (False, response) \<Rightarrow> (Inr (prepare response), h)
      | (True, response) \<Rightarrow>
          if ident = PNone then
            (Inr (prepare (response\<lparr>status := ''error'',
                                    error_type := Some ''IDRequired'',
                                    error_message := Some ''Get requires an id''\<rparr>)),
             h)
          else
            (case call_ddb_method E (Get_item ident True) response h of
               (response, h1) \<Rightarrow>
                 if status response = ''success'' then
                   (case raw_response response of
                      None \<Rightarrow> (Inl TypeError, h1)
                    | Some raw \<Rightarrow>
                        (case Item raw of
                           Some item \<Rightarrow>
                             (case (if dec then decrypt E (encrypted_attributes self) item h1
                                    else (Inr item, h1)) of
                                (Inl e, h2) \<Rightarrow> (Inl e, h2)
                              | (Inr item', h2) \<Rightarrow>
                                  (case replace_decimals (PDict item') of
                                     Inl e \<Rightarrow> (Inl e, h2)
                                   | Inr d \<Rightarrow> (Inr (prepare (response\<lparr>data := d\<rparr>)), h2)))
                         | None \<Rightarrow>
                             (Inr (prepare (response\<lparr>status := ''error'',
                                                     error_type := Some ''NotFound'',
                                                     error_message :=
                                                       Some (''Item with id ('' @ str_of E ident
                                                             @ '') not found'')\<rparr>)),
                              h1)))
                 else (Inr (prepare response), h1)))"

text \<open>
  \<^verbatim>\<open>create\<close> and \<^verbatim>\<open>update\<close> write into the dict they are given; for anything that is not
  a dict, \<^verbatim>\<open>item.keys()\<close> raises AttributeError and the item assignment TypeError.
\<close>

definition create :: "env \<Rightarrow> crud \<Rightarrow> pyval \<Rightarrow> history \<Rightarrow> result" where
  "create E self item h =
     (let response = new_response self in
      case check_supported_op self ''create'' response of
        (False, response) \<Rightarrow> (Inr (prepare response), h)
      | (True, response) \<Rightarrow>
          (case item of
             PDict it \<Rightarrow>
               (case handle_defaults E self it h of
                  (Inl e, h1) \<Rightarrow> (Inl e, h1)
                | (Inr it1, h1) \<Rightarrow>
                    (case map_of it1 ''created_at'' of
                       None \<Rightarrow> (Inl (KeyError ''created_at''), h1)
                     | Some c \<Rightarrow>
                         (case encrypt E (encrypted_attributes self)
                                 (AList.update ''modified_at'' c it1) h1 of
                            (Inl e, h2) \<Rightarrow> (Inl e, h2)
                          | (Inr it2, h2) \<Rightarrow>
                              (case call_ddb_method E (Put_item it2) response h2 of
                                 (response, h3) \<Rightarrow>
                                   if status response = ''success''
                                   then (Inr (prepare (response\<lparr>data := PDict it2\<rparr>)), h3)
                                   else (Inr (prepare response), h3)))))
           | _ \<Rightarrow> (Inl AttributeError, h)))"

definition update :: "env \<Rightarrow> crud \<Rightarrow> pyval \<Rightarrow> history \<Rightarrow> result" where
  "update E self item h =
     (let response = new_response self in
      case check_supported_op self ''update'' response of
        (False, response) \<Rightarrow> (Inr (prepare response), h)
      | (True, response) \<Rightarrow>
          (case check E (PStr ''<timestamp>'') h of
             (Inl e, h1) \<Rightarrow> (Inl e, h1)
           | (Inr now, h1) \<Rightarrow>
               (case item of
                  PDict it \<Rightarrow>
                    (case encrypt E (encrypted_attributes self)
                            (AList.update ''modified_at'' now it) h1 of
                       (Inl e, h2) \<Rightarrow> (Inl e, h2)
                     | (Inr it2, h2) \<Rightarrow>
                         (case call_ddb_method E (Put_item it2) response h2 of
                            (response, h3) \<Rightarrow>
                              if status response = ''success''
                              then (Inr (prepare (response\<lparr>data := PDict it2\<rparr>)), h3)
                              else (Inr (prepare response), h3)))
                | _ \<Rightarrow> (Inl TypeError, h1))))"

definition delete :: "env \<Rightarrow> crud \<Rightarrow> pyval \<Rightarrow> history \<Rightarrow> result" where
  "delete E self ident h =
     (let response = new_response self in
      case check_supported_op self ''delete'' response of
        (False, response) \<Rightarrow> (Inr (prepare response), h)
      | (True, response) \<Rightarrow>
          if ident = PNone then
            (Inr (prepare (response\<lparr>status := ''error'',
                                    error_type := Some ''IDRequired'',
                                    error_message := Some ''Delete requires an id''\<rparr>)),
             h)
          else
            (case call_ddb_method E (Delete_item ident) response h of
               (response, h1) \<Rightarrow> (Inr (prepare response), h1)))"

text \<open>\<^verbatim>\<open>operation.lower()\<close> on a byte string, and \<^verbatim>\<open>item['id']\<close>.\<close>

definition lower_char :: "char \<Rightarrow> char" where
  "lower_char c =
     (let n = (of_char c :: nat) in if 65 \<le> n \<and> n \<le> 90 then char_of (n + 32) else c)"

definition lower :: "string \<Rightarrow> string" where
  "lower s = map lower_char s"

fun getitem_id :: "pyval \<Rightarrow> pyexn + pyval" where
  "getitem_id (PDict kvs) =
     (case map_of kvs ''id'' of None \<Rightarrow> Inl (KeyError ''id'') | Some v \<Rightarrow> Inr v)"
| "getitem_id _ = Inl TypeError"

definition handler :: "env \<Rightarrow> crud \<Rightarrow> pyval \<Rightarrow> string \<Rightarrow> history \<Rightarrow> result" where
  "handler E self item operation h =
     (let response = new_response self;
          operation = lower operation;
          response = snd (check_supported_op self operation response)
      in if status response = ''success'' then
           if operation = ''list'' then list_items E self h
           else if operation = ''get'' then
             (case getitem_id item of Inl e \<Rightarrow> (Inl e, h) | Inr ident \<Rightarrow> get E self ident False h)
           else if operation = ''create'' then create E self item h
           else if operation = ''update'' then update E self item h
           else if operation = ''delete'' then
             (case getitem_id item of Inl e \<Rightarrow> (Inl e, h) | Inr ident \<Rightarrow> delete E self ident h)
           else if operation = ''query'' then query E self item h
           else (Inr response, h)
         else (Inr response, h))"

subsection \<open>Calls of the public interface\<close>

text \<open>
  One value for each way a caller can enter the handler, so that a statement can speak of
  every operation at once. \<open>checked_name\<close> is the name that the operation looks up in the
  allow-list: its own, or for the dispatcher the lower-cased operation argument.
\<close>

datatype op_call =
    Create pyval
  | Update pyval
  | Get pyval bool
  | Delete pyval
  | List
  | Query_op pyval
  | Handler pyval string

fun invoke :: "env \<Rightarrow> crud \<Rightarrow> op_call \<Rightarrow> history \<Rightarrow> result" where
  "invoke E self (Create item) h = create E self item h"
| "invoke E self (Update item) h = update E self item h"
| "invoke E self (Get ident dec) h = get E self ident dec h"
| "invoke E self (Delete ident) h = delete E self ident h"
| "invoke E self List h = list_items E self h"
| "invoke E self (Query_op q) h = query E self q h"
| "invoke E self (Handler item operation) h = handler E self item operation h"


text \<open>The envelope invariant.\<close>

definition envelope_ok :: "response \<Rightarrow> bool" where
  "envelope_ok r =
     ((status r = ''success'' \<or> status r = ''error'')
      \<and> (status r = ''error'' \<longrightarrow> data r = PNone)
      \<and> (status r = ''success'' \<longrightarrow>
            error_type r = None \<and> error_code r = None \<and> error_message r = None))"

subsection \<open>A sample environment\<close>

text \<open>
  An in-memory table keyed by \<open>id\<close>, rebuilt from the requests recorded so far; a toy cipher
  that ignores its key and accepts strings only; a toy transfer encoding; a generator and a
  clock that count the calls made. It serves to run the operations on concrete inputs.
\<close>

fun table_after :: "history \<Rightarrow> item list" where
  "table_after [] = []"
| "table_after (Store (Put_item it) # h) =
     it # filter (\<lambda>x. map_of x ''id'' \<noteq> map_of it ''id'') (table_after h)"
| "table_after (Store (Delete_item i) # h) =
     filter (\<lambda>x. map_of x ''id'' \<noteq> Some i) (table_after h)"
| "table_after (e # h) = table_after h"

definition sample_metadata :: pyval where
  "sample_metadata = PDict [(''HTTPStatusCode'', PInt 200)]"

fun sample_ddb :: "history \<Rightarrow> ddb_call \<Rightarrow> raw_response outcome" where
  "sample_ddb h (Get_item i c) =
     Returns \<lparr>Item = find (\<lambda>x. map_of x ''id'' = Some i) (table_after h), Items = None,
              ResponseMetadata = sample_metadata\<rparr>"
| "sample_ddb h (Put_item it) =
     Returns \<lparr>Item = None, Items = None, ResponseMetadata = sample_metadata\<rparr>"
| "sample_ddb h (Delete_item i) =
     Returns \<lparr>Item = None, Items = None, ResponseMetadata = sample_metadata\<rparr>"
| "sample_ddb h Scan =
     Returns \<lparr>Item = None, Items = Some (table_after h), ResponseMetadata = sample_metadata\<rparr>"
| "sample_ddb h (Query k v idx) =
     Returns \<lparr>Item = None, Items = Some (filter (\<lambda>x. map_of x k = Some (PStr v)) (table_after h)),
              ResponseMetadata = sample_metadata\<rparr>"

fun sample_kms_encrypt :: "history \<Rightarrow> string \<Rightarrow> pyval \<Rightarrow> string outcome" where
  "sample_kms_encrypt h k (PStr p) = Returns (rev p)"
| "sample_kms_encrypt h k v = Raises_Exception ''ParamValidationError'' ''Invalid type for parameter Plaintext''"

definition sample_b64decode :: "string \<Rightarrow> string option" where
  "sample_b64decode s = (if take 4 s = ''b64:'' then Some (drop 4 s) else None)"

fun sample_str_of :: "pyval \<Rightarrow> string" where
  "sample_str_of (PStr s) = s"
| "sample_str_of v = ''?''"

definition sample_env :: env where
  "sample_env =
     \<lparr>ddb = sample_ddb,
      kms_encrypt = sample_kms_encrypt,
      kms_decrypt = (\<lambda>h c. Returns (rev c)),
      uuid4 = (\<lambda>h. ''uuid-'' @ replicate (length h) (CHR ''i'')),
      time_ms = (\<lambda>h. 1000 + int (length h)),
      b64encode = (\<lambda>s. ''b64:'' @ s),
      b64decode = sample_b64decode,
      str_of = sample_str_of\<rparr>"

text \<open>The same environment with a table that refuses every request.\<close>

definition failing_env :: env where
  "failing_env =
     sample_env\<lparr>ddb := (\<lambda>h c. Raises_ClientError (Some ''Requested resource not found'')
                                (Some ''ResourceNotFoundException'') None)\<rparr>"

text \<open>
  Handlers as the constructor builds them: with every argument absent, and with an index on
  \<open>owner\<close>, restricted operations or encrypted attributes.
\<close>

definition no_kwargs :: kwargs where
  "no_kwargs = \<lparr>kw_defaults = None, kw_supported_ops = None, kw_encrypted_attributes = None,
                kw_debug = None\<rparr>"

definition sample_table :: table where
  "sample_table =
     \<lparr>key_schema = [''id''],
      global_secondary_indexes = Some [([''owner''], ''owner-index'')]\<rparr>"

definition sample_crud :: crud where
  "sample_crud =
     \<lparr>defaults = [(''id'', PStr ''<uuid>''), (''created_at'', PStr ''<timestamp>'')],
      supported_ops = SupportedOps,
      encrypted_attributes = [],
      indexes = [(''owner'', ''owner-index'')],
      debug = False\<rparr>"


text \<open>A handler that encrypts \<open>created_at\<close>.\<close>

definition stamped_crud :: crud where
  "stamped_crud = sample_crud\<lparr>encrypted_attributes := [(''created_at'', ''key-1'')]\<rparr>"





text \<open>
  The conversion in the words of the specification: through lists and dicts, a whole decimal
  becomes an integer, any other decimal a float, everything else stays. \<open>fits\<close> holds when
  no decimal reached that way has an integer part beyond the context precision.
\<close>

fun native :: "pyval \<Rightarrow> pyval"
  and native_list :: "pyval list \<Rightarrow> pyval list"
  and native_dict :: "(string \<times> pyval) list \<Rightarrow> (string \<times> pyval) list"
where
  "native (PList xs) = PList (native_list xs)"
| "native (PDict kvs) = PDict (native_dict kvs)"
| "native (PDecimal d) = (if is_whole d then PInt (int_of_decimal d) else PFloat d)"
| "native PNone = PNone"
| "native (PBool b) = PBool b"
| "native (PInt i) = PInt i"
| "native (PFloat f) = PFloat f"
| "native (PStr s) = PStr s"
| "native (PBinary s) = PBinary s"
| "native (PSet xs) = PSet xs"
| "native_list [] = []"
| "native_list (x # xs) = native x # native_list xs"
| "native_dict [] = []"
| "native_dict ((k, v) # kvs) = (k, native v) # native_dict kvs"

fun fits :: "pyval \<Rightarrow> bool"
  and fits_list :: "pyval list \<Rightarrow> bool"
  and fits_dict :: "(string \<times> pyval) list \<Rightarrow> bool"
where
  "fits (PList xs) = fits_list xs"
| "fits (PDict kvs) = fits_dict kvs"
| "fits (PDecimal d) = (\<not> quotient_too_large d)"
| "fits PNone = True"
| "fits (PBool b) = True"
| "fits (PInt i) = True"
| "fits (PFloat f) = True"
| "fits (PStr s) = True"
| "fits (PBinary s) = True"
| "fits (PSet xs) = True"
| "fits_list [] = True"
| "fits_list (x # xs) = (fits x \<and> fits_list xs)"
| "fits_dict [] = True"
| "fits_dict ((k, v) # kvs) = (fits v \<and> fits_dict kvs)"


text \<open>
  The handler object over a sequence of calls. No operation of the source assigns an
  attribute of \<^verbatim>\<open>self\<close> or writes into \<^verbatim>\<open>self.defaults\<close>
  (\<^verbatim>\<open>_handle_defaults\<close> reads it and writes into the item), so a call leaves the handler
  it was made on; \<open>session\<close> makes the calls one after the other, each on the handler and the
  history that the call before left. Dicts are values here: the item of a call is an object
  of its own, not the very dict that was given to the constructor as \<^verbatim>\<open>defaults\<close>.
\<close>

fun step :: "env \<Rightarrow> op_call \<Rightarrow> crud \<times> history \<Rightarrow> (pyexn + response) \<times> (crud \<times> history)" where
  "step E c (self, h) = (case invoke E self c h of (res, h') \<Rightarrow> (res, (self, h')))"


section \<open>Properties\<close>

subsection \<open>The envelope\<close>

lemma prepare_fields [simp]:
  "status (prepare r) = status r" "data (prepare r) = data r"
  "error_type (prepare r) = error_type r" "error_code (prepare r) = error_code r"
  "error_message (prepare r) = error_message r"
  by (auto simp: prepare_def split: option.splits)

lemma envelope_ok_prepare [simp]: "envelope_ok (prepare r) = envelope_ok r"
  by (simp add: envelope_ok_def)

lemma new_response_fields [simp]:
  "status (new_response self) = ''success''" "data (new_response self) = PNone"
  "error_type (new_response self) = None" "error_code (new_response self) = None"
  "error_message (new_response self) = None" "raw_response (new_response self) = None"
  by (simp_all add: new_response_def CRUDResponse_def)

lemma call_ddb_method_history: "snd (call_ddb_method E c r h) = Store c # h"
  by (simp add: call_ddb_method_def split: outcome.splits)

lemma envelope_ok_new [simp]: "envelope_ok (new_response self)"
  by (simp add: envelope_ok_def)

lemma envelope_ok_error:
  "data r = PNone \<Longrightarrow> envelope_ok (r\<lparr>status := ''error'', error_type := t, error_message := m\<rparr>)"
  by (simp add: envelope_ok_def)

lemma query_envelope: "query E self q h = (Inr r, h') \<Longrightarrow> envelope_ok r"
  unfolding query_def Let_def check_supported_op_def call_ddb_method_def
  by (auto simp: envelope_ok_def split: prod.splits bool.splits sum.splits list.splits option.splits if_splits outcome.splits)

lemma list_envelope: "list_items E self h = (Inr r, h') \<Longrightarrow> envelope_ok r"
  unfolding list_items_def Let_def check_supported_op_def call_ddb_method_def
  by (auto simp: envelope_ok_def split: prod.splits bool.splits sum.splits list.splits option.splits if_splits outcome.splits)

lemma get_envelope: "get E self i d h = (Inr r, h') \<Longrightarrow> envelope_ok r"
  unfolding get_def Let_def check_supported_op_def call_ddb_method_def
  by (auto simp: envelope_ok_def split: prod.splits bool.splits sum.splits list.splits option.splits if_splits outcome.splits)

lemma create_envelope: "create E self i h = (Inr r, h') \<Longrightarrow> envelope_ok r"
  unfolding create_def Let_def check_supported_op_def call_ddb_method_def
  by (auto simp: envelope_ok_def split: prod.splits bool.splits sum.splits list.splits option.splits if_splits outcome.splits pyval.splits)

lemma update_envelope: "update E self i h = (Inr r, h') \<Longrightarrow> envelope_ok r"
  unfolding update_def Let_def check_supported_op_def call_ddb_method_def
  by (auto simp: envelope_ok_def split: prod.splits bool.splits sum.splits list.splits option.splits if_splits outcome.splits pyval.splits)

lemma delete_envelope: "delete E self i h = (Inr r, h') \<Longrightarrow> envelope_ok r"
  unfolding delete_def Let_def check_supported_op_def call_ddb_method_def
  by (auto simp: envelope_ok_def split: prod.splits bool.splits sum.splits list.splits option.splits if_splits outcome.splits pyval.splits)

lemma handler_envelope: "handler E self i operation h = (Inr r, h') \<Longrightarrow> envelope_ok r"
  unfolding handler_def Let_def
  by (auto simp: check_supported_op_def envelope_ok_error query_envelope list_envelope get_envelope create_envelope update_envelope delete_envelope split: sum.splits if_splits)

text \<open>
  C9. An envelope that an operation returns has status \<open>success\<close> or \<open>error\<close>; with
  status \<open>error\<close> its data is None; with status \<open>success\<close> its error type, error code
  and error message are all None. This holds for the six operations and for the dispatcher,
  for every handler, environment and argument.
\<close>

theorem envelope_invariant: "invoke E self c h = (Inr r, h') \<Longrightarrow> envelope_ok r"
  by (cases c) (auto simp: query_envelope list_envelope get_envelope create_envelope
      update_envelope delete_envelope handler_envelope)

theorem envelope_invariant_witness:
  "\<exists>r h'. invoke sample_env sample_crud (Create (PDict [(''owner'', PStr ''bob'')])) []
            = (Inr r, h') \<and> status r = ''success'' \<and> envelope_ok r"
proof -
  let ?item = "[(''owner'', PStr ''bob''), (''id'', PStr ''uuid-''),
                (''created_at'', PInt 1001), (''modified_at'', PInt 1001)]"
  let ?r = "\<lparr>rdebug = False, status = ''success'', data = PDict ?item,
             error_type = None, error_code = None, error_message = None,
             raw_response = None, metadata = Some sample_metadata\<rparr>"
  have run: "invoke sample_env sample_crud (Create (PDict [(''owner'', PStr ''bob'')])) []
             = (Inr ?r, [Store (Put_item ?item), Time, Uuid4])"
    by code_simp
  from envelope_invariant [OF run] run show ?thesis by simp
qed

subsection \<open>The allow-list\<close>





subsection \<open>Errors of \<^verbatim>\<open>get\<close>\<close>




subsection \<open>Errors of \<^verbatim>\<open>query\<close>\<close>

lemma split_not_Nil [simp]: "split sep s \<noteq> []"
  by (induction s) (auto split: list.splits)










subsection \<open>Exceptions that reach the caller\<close>

text \<open>
  C4 says that every failure ends in an error envelope. The handler built with no keyword
  argument raises ValueError to the caller of \<open>query\<close> when the query string holds two
  \<open>=\<close>: \<^verbatim>\<open>key, value = query_string.split('=')\<close> is outside the one \<^verbatim>\<open>try\<close> of the
  module.
\<close>

theorem query_raises_at_second_equals_sign:
  "CRUD_init no_kwargs sample_table = Inr sample_crud
   \<and> query sample_env sample_crud (PStr ''owner=bob=x'') [] = (Inl ValueError, [])"
  by code_simp

subsection \<open>Decimals\<close>

text \<open>
  C6 says that every whole decimal read from the table comes back as an integer. The table
  may hold the whole number \<open>1E+28\<close>; reading the item raises InvalidOperation at
  \<^verbatim>\<open>obj % 1\<close>, whose integer quotient has 29 digits, one more than the decimal context
  holds.
\<close>

theorem get_raises_at_large_decimal:
  "get sample_env sample_crud (PStr ''n1'') False
     [Store (Put_item [(''id'', PStr ''n1''), (''n'', PDecimal (Dec 1 28))])]
   = (Inl InvalidOperation,
      [Store (Get_item (PStr ''n1'') True),
       Store (Put_item [(''id'', PStr ''n1''), (''n'', PDecimal (Dec 1 28))])])"
  by code_simp

subsection \<open>Defaults, encryption and the history\<close>

lemma token_match_uuid [simp]: "token_match ''<uuid>'' = Some ''uuid''"
  by (simp add: token_match_def is_space_def)

lemma token_match_timestamp [simp]: "token_match ''<timestamp>'' = Some ''timestamp''"
  by (simp add: token_match_def is_space_def)

lemma check_uuid [simp]: "check E (PStr ''<uuid>'') h = (Inr (PStr (uuid4 E h)), Uuid4 # h)"
  by simp

lemma check_timestamp [simp]:
  "check E (PStr ''<timestamp>'') h = (Inr (PInt (time_ms E h)), Time # h)"
  by simp

lemma check_suffix: "check E v h = (x, h') \<Longrightarrow> suffix h h'"
  by (cases v) (auto split: option.splits if_splits simp: suffix_ConsI)

lemma fill_missing_suffix: "fill_missing E dflt keys item h = (x, h') \<Longrightarrow> suffix h h'"
proof (induction keys arbitrary: item h)
  case Nil
  then show ?case by simp
next
  case (Cons key keys)
  then show ?case
    by (auto split: option.splits prod.splits sum.splits dest: check_suffix intro: suffix_order.trans)
qed

lemma fill_missing_other:
  "fill_missing E dflt keys item h = (Inr item', h') \<Longrightarrow> k \<notin> set keys
   \<Longrightarrow> map_of item' k = map_of item k"
proof (induction keys arbitrary: item h)
  case Nil
  then show ?case by simp
next
  case (Cons key keys)
  then show ?case
    by (auto split: option.splits prod.splits sum.splits simp: update_conv')
qed

lemma fill_missing_key:
  assumes "fill_missing E dflt keys item h = (Inr item', h')" "k \<in> set keys"
    "map_of dflt k = Some tok"
  shows "\<exists>h0 h1 v. suffix h h0 \<and> check E tok h0 = (Inr v, h1) \<and> suffix h1 h'
           \<and> map_of item' k = Some v"
  using assms
proof (induction keys arbitrary: item h)
  case Nil
  then show ?case by simp
next
  case (Cons key keys)
  show ?case
  proof (cases "k \<in> set keys")
    case True
    from Cons.prems(1) obtain tok' v' hm where
      step: "map_of dflt key = Some tok'" "check E tok' h = (Inr v', hm)"
        "fill_missing E dflt keys (AList.update key v' item) hm = (Inr item', h')"
      by (auto split: option.splits prod.splits sum.splits)
    from Cons.IH [OF step(3) True Cons.prems(3)] obtain h0 h1 v where
      "suffix hm h0" "check E tok h0 = (Inr v, h1)" "suffix h1 h'" "map_of item' k = Some v"
      by blast
    moreover from step(2) have "suffix h hm" by (rule check_suffix)
    ultimately show ?thesis by (blast intro: suffix_order.trans)
  next
    case False
    with Cons.prems(2) have kk: "key = k" by simp
    from Cons.prems(1,3) kk obtain v' hm where
      step: "check E tok h = (Inr v', hm)"
        "fill_missing E dflt keys (AList.update k v' item) hm = (Inr item', h')"
      by (auto split: option.splits prod.splits sum.splits)
    from fill_missing_other [OF step(2) False] have "map_of item' k = Some v'"
      by (simp add: update_conv')
    moreover from step(2) have "suffix hm h'" by (rule fill_missing_suffix)
    ultimately show ?thesis using step(1) by blast
  qed
qed

lemma encrypt_suffix: "encrypt E L item h = (x, h') \<Longrightarrow> suffix h h'"
proof (induction L arbitrary: item h)
  case Nil
  then show ?case by simp
next
  case (Cons p L)
  obtain a k where p: "p = (a, k)" by (cases p)
  from Cons.prems show ?case unfolding p
    by (auto split: option.splits outcome.splits dest!: Cons.IH
        intro: suffix_ConsD)
qed

lemma encrypt_other:
  "encrypt E L item h = (Inr item', h') \<Longrightarrow> k \<notin> fst ` set L \<Longrightarrow> map_of item' k = map_of item k"
proof (induction L arbitrary: item h)
  case Nil
  then show ?case by simp
next
  case (Cons p L)
  obtain a key where p: "p = (a, key)" by (cases p)
  from Cons.prems show ?case unfolding p
    by (auto split: option.splits outcome.splits dest!: Cons.IH simp: update_conv')
qed

lemma init_defaults:
  assumes "CRUD_init kw t = Inr self"
  shows "map_of (defaults self) ''id'' = Some (PStr ''<uuid>'')"
    and "map_of (defaults self) ''created_at'' = Some (PStr ''<timestamp>'')"
  using assms by (auto simp: CRUD_init_def Let_def update_conv' split: sum.splits)

lemma handle_defaults_suffix: "handle_defaults E self item h = (x, h') \<Longrightarrow> suffix h h'"
  by (auto simp: handle_defaults_def Let_def dest: fill_missing_suffix)

lemma handle_defaults_present:
  "handle_defaults E self item h = (Inr item', h') \<Longrightarrow> k \<in> fst ` set item
   \<Longrightarrow> map_of item' k = map_of item k"
proof -
  assume run: "handle_defaults E self item h = (Inr item', h')" and k: "k \<in> fst ` set item"
  from k have "k \<notin> set (filter (\<lambda>k. k \<notin> fst ` set item) (map fst (defaults self)))"
    by simp
  with run show ?thesis
    unfolding handle_defaults_def Let_def by (rule fill_missing_other)
qed

lemma handle_defaults_missing:
  assumes "handle_defaults E self item h = (Inr item', h')" "k \<notin> fst ` set item"
    "map_of (defaults self) k = Some tok"
  shows "\<exists>h0 h1 v. suffix h h0 \<and> check E tok h0 = (Inr v, h1) \<and> suffix h1 h'
           \<and> map_of item' k = Some v"
proof -
  from assms(3) have "k \<in> fst ` set (defaults self)"
    by (metis map_of_eq_None_iff option.distinct(1))
  with assms(2) have "k \<in> set (filter (\<lambda>k. k \<notin> fst ` set item) (map fst (defaults self)))"
    by auto
  with assms(1,3) show ?thesis
    unfolding handle_defaults_def Let_def by (blast intro: fill_missing_key)
qed

lemma create_success:
  assumes "create E self (PDict it) h = (Inr r, h')" "status r = ''success''"
  shows "\<exists>it1 h1 c it2 h2. handle_defaults E self it h = (Inr it1, h1)
           \<and> map_of it1 ''created_at'' = Some c
           \<and> encrypt E (encrypted_attributes self) (AList.update ''modified_at'' c it1) h1
               = (Inr it2, h2)
           \<and> h' = Store (Put_item it2) # h2 \<and> data r = PDict it2"
  using assms unfolding create_def Let_def check_supported_op_def call_ddb_method_def
  by (auto split: if_splits prod.splits sum.splits option.splits outcome.splits)


subsection \<open>\<^verbatim>\<open>create\<close>\<close>

text \<open>
  C1, as the code has it. For a handler built by the constructor and an item without \<open>id\<close>:
  when \<open>create\<close> returns a success envelope and none of \<open>id\<close>, \<open>created_at\<close>,
  \<open>modified_at\<close> is configured for encryption, the data of the envelope is the item with
  \<open>id\<close> set to the string that a call of the identifier generator made during this
  \<open>create\<close> returned, with \<open>created_at\<close> present, with \<open>modified_at\<close> equal to
  \<open>created_at\<close>, and with every other attribute of the item that is not encrypted as the
  caller gave it. How unique the identifier is, is up to the generator.
\<close>

theorem create_fills_id:
  assumes init: "CRUD_init kw t = Inr self"
    and run: "create E self (PDict it) h = (Inr r, h')"
    and ok: "status r = ''success''"
    and noid: "''id'' \<notin> fst ` set it"
    and plain: "fst ` set (encrypted_attributes self) \<inter> {''id'', ''created_at'', ''modified_at''} = {}"
  shows "\<exists>d h0. data r = PDict d
           \<and> suffix h h0 \<and> suffix (Uuid4 # h0) h'
           \<and> map_of d ''id'' = Some (PStr (uuid4 E h0))
           \<and> map_of d ''created_at'' \<noteq> None
           \<and> map_of d ''modified_at'' = map_of d ''created_at''
           \<and> (\<forall>k v. map_of it k = Some v \<and> k \<noteq> ''modified_at''
                    \<and> k \<notin> fst ` set (encrypted_attributes self) \<longrightarrow> map_of d k = Some v)"
proof -
  from create_success [OF run ok] obtain it1 h1 c it2 h2 where
    dflt: "handle_defaults E self it h = (Inr it1, h1)"
    and c: "map_of it1 ''created_at'' = Some c"
    and enc: "encrypt E (encrypted_attributes self) (AList.update ''modified_at'' c it1) h1
               = (Inr it2, h2)"
    and h': "h' = Store (Put_item it2) # h2" and d: "data r = PDict it2"
    by blast
  from plain have pl: "''id'' \<notin> fst ` set (encrypted_attributes self)"
    "''created_at'' \<notin> fst ` set (encrypted_attributes self)"
    "''modified_at'' \<notin> fst ` set (encrypted_attributes self)"
    by auto
  from handle_defaults_missing [OF dflt noid init_defaults(1) [OF init]] obtain h0 where
    h0: "suffix h h0" "suffix (Uuid4 # h0) h1" "map_of it1 ''id'' = Some (PStr (uuid4 E h0))"
    by auto
  from enc have "suffix h1 h2" by (rule encrypt_suffix)
  with h0(2) have "suffix (Uuid4 # h0) h'" unfolding h'
    by (blast intro: suffix_order.trans suffix_ConsI)
  moreover from encrypt_other [OF enc pl(1)] h0(3)
  have "map_of it2 ''id'' = Some (PStr (uuid4 E h0))" by (simp add: update_conv')
  moreover from encrypt_other [OF enc pl(2)] c
  have ca: "map_of it2 ''created_at'' = Some c" by (simp add: update_conv')
  moreover from encrypt_other [OF enc pl(3)]
  have "map_of it2 ''modified_at'' = Some c" by (simp add: update_conv')
  moreover have "map_of it2 k = Some v"
    if "map_of it k = Some v" "k \<noteq> ''modified_at''"
      "k \<notin> fst ` set (encrypted_attributes self)" for k v
  proof -
    from that(1) have "k \<in> fst ` set it"
      by (metis map_of_eq_None_iff option.distinct(1))
    from handle_defaults_present [OF dflt this] that(1) have "map_of it1 k = Some v" by simp
    with encrypt_other [OF enc that(3)] that(2) show ?thesis by (simp add: update_conv')
  qed
  ultimately show ?thesis using d h0(1) by auto
qed

theorem create_fills_id_witness:
  "CRUD_init no_kwargs sample_table = Inr sample_crud
   \<and> ''id'' \<notin> fst ` set [(''owner'', PStr ''bob'')]
   \<and> fst ` set (encrypted_attributes sample_crud) \<inter> {''id'', ''created_at'', ''modified_at''} = {}
   \<and> (\<exists>r h' d h0. create sample_env sample_crud (PDict [(''owner'', PStr ''bob'')]) [] = (Inr r, h')
         \<and> status r = ''success'' \<and> data r = PDict d
         \<and> suffix (Uuid4 # h0) h' \<and> map_of d ''id'' = Some (PStr (uuid4 sample_env h0))
         \<and> map_of d ''modified_at'' = map_of d ''created_at''
         \<and> map_of d ''owner'' = Some (PStr ''bob''))"
proof -
  let ?item = "[(''owner'', PStr ''bob''), (''id'', PStr ''uuid-''),
                (''created_at'', PInt 1001), (''modified_at'', PInt 1001)]"
  let ?r = "\<lparr>rdebug = False, status = ''success'', data = PDict ?item,
             error_type = None, error_code = None, error_message = None,
             raw_response = None, metadata = Some sample_metadata\<rparr>"
  have init: "CRUD_init no_kwargs sample_table = Inr sample_crud" by code_simp
  have run: "create sample_env sample_crud (PDict [(''owner'', PStr ''bob'')]) []
             = (Inr ?r, [Store (Put_item ?item), Time, Uuid4])"
    by code_simp
  have ok: "status ?r = ''success''" by simp
  have noid: "''id'' \<notin> fst ` set [(''owner'', PStr ''bob'')]" by simp
  have plain: "fst ` set (encrypted_attributes sample_crud)
                 \<inter> {''id'', ''created_at'', ''modified_at''} = {}"
    by (simp add: sample_crud_def)
  from create_fills_id [OF init run ok noid plain] obtain d h0 where
    "data ?r = PDict d" "suffix (Uuid4 # h0) [Store (Put_item ?item), Time, Uuid4]"
    "map_of d ''id'' = Some (PStr (uuid4 sample_env h0))"
    "map_of d ''modified_at'' = map_of d ''created_at''"
    "\<forall>k v. map_of [(''owner'', PStr ''bob'')] k = Some v \<and> k \<noteq> ''modified_at''
         \<and> k \<notin> fst ` set (encrypted_attributes sample_crud) \<longrightarrow> map_of d k = Some v"
    by blast
  moreover from this(5) have "map_of d ''owner'' = Some (PStr ''bob'')"
    by (simp add: sample_crud_def)
  ultimately show ?thesis using init run noid plain ok by blast
qed

text \<open>
  C1 as stated promises the data for every item without \<open>id\<close>. When the table refuses the
  write, the envelope is an error and its data is None. When \<open>created_at\<close> is configured
  for encryption, the envelope holds its ciphertext, while \<open>modified_at\<close> holds the copy
  taken before encryption.
\<close>

theorem create_counterexample:
  "create failing_env sample_crud (PDict [(''owner'', PStr ''bob'')]) []
     = (Inr \<lparr>rdebug = False, status = ''error'', data = PNone, error_type = None,
             error_code = Some ''ResourceNotFoundException'',
             error_message = Some ''Requested resource not found'',
             raw_response = None, metadata = None\<rparr>,
        [Store (Put_item [(''owner'', PStr ''bob''), (''id'', PStr ''uuid-''),
                          (''created_at'', PInt 1001), (''modified_at'', PInt 1001)]),
         Time, Uuid4])
   \<and> create sample_env stamped_crud (PDict [(''created_at'', PStr ''2016-05-01'')]) []
     = (Inr \<lparr>rdebug = False, status = ''success'',
             data = PDict [(''created_at'', PStr ''b64:10-50-6102''), (''id'', PStr ''uuid-''),
                           (''modified_at'', PStr ''2016-05-01'')],
             error_type = None, error_code = None, error_message = None,
             raw_response = None, metadata = Some sample_metadata\<rparr>,
        [Store (Put_item [(''created_at'', PStr ''b64:10-50-6102''), (''id'', PStr ''uuid-''),
                          (''modified_at'', PStr ''2016-05-01'')]),
         Kms_encrypt ''key-1'' (PStr ''2016-05-01''), Uuid4])"
  by code_simp

subsection \<open>The defaults of a constructed handler\<close>





subsection \<open>\<^verbatim>\<open>update\<close> and the clock\<close>







subsection \<open>Encryption round trip\<close>










subsection \<open>The decimal conversion, in full\<close>

text \<open>
  \<^verbatim>\<open>_replace_decimals\<close> computes the conversion of the specification on every value whose
  decimals fit the context precision, and raises InvalidOperation on every other value.
\<close>

lemma replace_decimals_native:
  "replace_decimals v = (if fits v then Inr (native v) else Inl InvalidOperation)"
  "replace_decimals_list xs = (if fits_list xs then Inr (native_list xs) else Inl InvalidOperation)"
  "replace_decimals_dict kvs = (if fits_dict kvs then Inr (native_dict kvs) else Inl InvalidOperation)"
  by (induction v and xs and kvs
      rule: replace_decimals_replace_decimals_list_replace_decimals_dict.induct)
    (simp_all add: mod1_is_zero_def)

end
